theory Spec2Isabelle
  imports Complex_Main "HOL-Library.Multiset"
begin

section \<open>Wind-to-power estimation: a model of \<open>app.py\<close>\<close>

text \<open>
  The dashboard computes with IEEE doubles through numpy and pandas. Most properties
  verified here are stated over the real numbers: there every float is modelled as a
  \<^typ>\<open>real\<close> and every arithmetic operation as the exact one, and rounding, overflow
  to infinity and NaN are left out. The power curve is modelled a second time in double
  precision, with every operation rounded to the nearest double, because the bound by
  the rated power depends on the rounding. Timestamps are modelled as \<^typ>\<open>int\<close>,
  the number of nanoseconds since the epoch that a pandas \<open>Timestamp\<close> holds.
\<close>

subsection \<open>Python float arithmetic that can raise\<close>

datatype py_error =
    RequestException
  | ValueError
  | ZeroDivisionError
  | ComplexResult

text \<open>
  \<open>a / b\<close> on Python floats raises \<open>ZeroDivisionError\<close> when \<open>b\<close> is zero.
\<close>

definition py_truediv :: "real \<Rightarrow> real \<Rightarrow> py_error + real" where
  "py_truediv a b = (if b = 0 then Inl ZeroDivisionError else Inr (a / b))"

text \<open>
  \<open>a ** b\<close> on Python floats: a zero base with a negative exponent raises
  \<open>ZeroDivisionError\<close>, \<open>0.0 ** 0.0\<close> is \<open>1.0\<close>, and a negative base
  with an exponent that is not a whole number gives a \<open>complex\<close> value, which is
  not a speed any more (\<open>ComplexResult\<close>).
\<close>

definition py_pow :: "real \<Rightarrow> real \<Rightarrow> py_error + real" where
  "py_pow a b =
     (if 0 < a then Inr (a powr b)
      else if a = 0 then
        (if b < 0 then Inl ZeroDivisionError else if b = 0 then Inr 1 else Inr 0)
      else if of_int \<lfloor>b\<rfloor> = b then Inr (a powi \<lfloor>b\<rfloor>)
      else Inl ComplexResult)"

subsection \<open>Height extrapolation (\<open>adjust_height\<close>, lines 74--76)\<close>

text \<open>
  \<open>factor = (z_to / z_from) ** alpha\<close> is computed once, before the series is
  touched.
\<close>

definition height_factor :: "real \<Rightarrow> real \<Rightarrow> real \<Rightarrow> py_error + real" where
  "height_factor z_from z_to alpha =
     (case py_truediv z_to z_from of
        Inl e \<Rightarrow> Inl e
      | Inr q \<Rightarrow> py_pow q alpha)"

text \<open>
  \<open>wind_series * factor\<close> for one wind speed, and for a pandas \<open>Series\<close> (a list of
  speeds), where the multiplication is applied to every element.
\<close>

definition adjust_height :: "real \<Rightarrow> real \<Rightarrow> real \<Rightarrow> real \<Rightarrow> py_error + real" where
  "adjust_height wind_series z_from z_to alpha =
     (case height_factor z_from z_to alpha of
        Inl e \<Rightarrow> Inl e
      | Inr factor \<Rightarrow> Inr (wind_series * factor))"

definition adjust_height_series ::
  "real list \<Rightarrow> real \<Rightarrow> real \<Rightarrow> real \<Rightarrow> py_error + real list" where
  "adjust_height_series wind_series z_from z_to alpha =
     (case height_factor z_from z_to alpha of
        Inl e \<Rightarrow> Inl e
      | Inr factor \<Rightarrow> Inr (map (\<lambda>v. v * factor) wind_series))"

subsection \<open>Power curve (\<open>turbine_power_from_wind\<close>, lines 78--84)\<close>

text \<open>
  The arguments are in the order of the Python signature; \<open>rated_wind\<close> is accepted
  and never read. \<open>np.where\<close> and \<open>np.minimum\<close> act on each element, so the function
  is modelled for one wind speed and mapped over a series by its caller.
\<close>

definition turbine_power_from_wind ::
  "real \<Rightarrow> real \<Rightarrow> real \<Rightarrow> real \<Rightarrow> real \<Rightarrow> real \<Rightarrow> real \<Rightarrow> real \<Rightarrow> real" where
  "turbine_power_from_wind v rotor_diameter cp air_density rated_power_kw
       cut_in cut_out rated_wind =
     (let A = pi * (rotor_diameter / 2) ^ 2;
          P_watt = 0.5 * air_density * A * cp * v ^ 3;
          P_watt = (if v < cut_in \<or> v > cut_out then 0 else P_watt);
          P_watt = min P_watt (rated_power_kw * 1000)
      in P_watt / 1000)"

text \<open>The raw aerodynamic power of line 81, in watts.\<close>

definition raw_power_watt :: "real \<Rightarrow> real \<Rightarrow> real \<Rightarrow> real \<Rightarrow> real" where
  "raw_power_watt v rotor_diameter cp air_density =
     0.5 * air_density * (pi * (rotor_diameter / 2) ^ 2) * cp * v ^ 3"

subsection \<open>Power curve in double precision\<close>

text \<open>
  A finite double is a whole number times a power of two; \<open>F64 m e\<close> stands for
  \<open>m * 2 ^ e\<close>. Exponent range, subnormal numbers, infinities and NaN are left out:
  the magnitudes of a turbine are far from them.
\<close>

datatype f64 = F64 int int

fun valof :: "f64 \<Rightarrow> real" where
  "valof (F64 m e) = of_int m * 2 powi e"

text \<open>The number of binary digits of a positive whole number.\<close>

function bit_length :: "int \<Rightarrow> nat" where
  "bit_length n = (if n \<le> 0 then 0 else Suc (bit_length (n div 2)))"
  by pat_completeness auto
termination
  by (relation "measure nat") auto

text \<open>
  The whole number nearest to \<open>n / d\<close> for a positive \<open>d\<close>, a tie going to the even
  one: the rounding of IEEE 754 that Python and numpy use.
\<close>

definition half_even :: "int \<Rightarrow> int \<Rightarrow> int" where
  "half_even n d =
     (let q = n div d; r = n mod d
      in if 2 * r < d then q
         else if d < 2 * r then q + 1
         else if even q then q else q + 1)"

text \<open>
  The double nearest to \<open>(n / d) * 2 ^ e\<close> for a positive \<open>d\<close>: \<open>lg\<close> is the
  binary exponent of \<open>n / d\<close>, and the quotient is rounded to 53 significant bits.
\<close>

definition round_ratio :: "int \<Rightarrow> int \<Rightarrow> int \<Rightarrow> f64" where
  "round_ratio n d e =
     (if n = 0 then F64 0 0
      else
        let t = int (bit_length \<bar>n\<bar>) - int (bit_length d);
            lg = (if d * 2 ^ nat t \<le> \<bar>n\<bar> * 2 ^ nat (- t) then t else t - 1);
            k = lg - 52
        in F64 (half_even (n * 2 ^ nat (- k)) (d * 2 ^ nat k)) (k + e))"

text \<open>
  A decimal literal or a number typed into the sidebar, \<open>n / d\<close>, becomes the
  nearest double.
\<close>

definition f64_of_ratio :: "int \<Rightarrow> int \<Rightarrow> f64" where
  "f64_of_ratio n d = round_ratio n d 0"

text \<open>
  \<open>x * y\<close>; \<open>x / d\<close> for the whole-number divisors \<open>2.0\<close> and \<open>1000.0\<close> of the
  function; \<open>x ** n\<close>, the C library's \<open>pow\<close> taken as correctly rounded; \<open>x < y\<close>;
  and \<open>np.minimum\<close>.
\<close>

fun f64_mul :: "f64 \<Rightarrow> f64 \<Rightarrow> f64" where
  "f64_mul (F64 m1 e1) (F64 m2 e2) = round_ratio (m1 * m2) 1 (e1 + e2)"

fun f64_div_int :: "f64 \<Rightarrow> int \<Rightarrow> f64" where
  "f64_div_int (F64 m e) d = round_ratio m d e"

fun f64_pow :: "f64 \<Rightarrow> nat \<Rightarrow> f64" where
  "f64_pow (F64 m e) n = round_ratio (m ^ n) 1 (e * int n)"

fun f64_less :: "f64 \<Rightarrow> f64 \<Rightarrow> bool" where
  "f64_less (F64 m1 e1) (F64 m2 e2)
     \<longleftrightarrow> m1 * 2 ^ nat (e1 - e2) < m2 * 2 ^ nat (e2 - e1)"

definition f64_minimum :: "f64 \<Rightarrow> f64 \<Rightarrow> f64" where
  "f64_minimum x y = (if f64_less y x then y else x)"

text \<open>\<open>np.pi\<close> is the double \<open>0x1.921fb54442d18p+1\<close>.\<close>

definition np_pi :: f64 where
  "np_pi = F64 7074237752028440 (- 51)"

text \<open>
  Lines 80--84 again, operation by operation in the order Python evaluates them
  (the product of line 81 from the left).
\<close>

definition turbine_power_from_wind_f64 ::
  "f64 \<Rightarrow> f64 \<Rightarrow> f64 \<Rightarrow> f64 \<Rightarrow> f64 \<Rightarrow> f64 \<Rightarrow> f64 \<Rightarrow> f64 \<Rightarrow> f64" where
  "turbine_power_from_wind_f64 v rotor_diameter cp air_density rated_power_kw
       cut_in cut_out rated_wind =
     (let A = f64_mul np_pi (f64_pow (f64_div_int rotor_diameter 2) 2);
          P_watt = f64_mul (f64_mul (f64_mul (f64_mul (f64_of_ratio 5 10) air_density) A) cp)
                     (f64_pow v 3);
          P_watt = (if f64_less v cut_in \<or> f64_less cut_out v then F64 0 0 else P_watt);
          P_watt = f64_minimum P_watt (f64_mul rated_power_kw (f64_of_ratio 1000 1))
      in f64_div_int P_watt 1000)"

subsection \<open>Fetching a wind series (\<open>fetch_wind_data\<close>, lines 56--72)\<close>

text \<open>
  The outbound request is the environment's part: the model takes what comes back.
  \<open>requests.get\<close> or \<open>raise_for_status\<close> raises (\<open>TransportFailure\<close>), or
  the body is a JSON object whose \<open>hourly\<close> member may be absent
  (\<open>JsonBody None\<close>), and whose arrays \<open>time\<close> and \<open>windspeed_10m\<close> may each be
  absent. The timestamps are taken as \<open>pd.to_datetime\<close> parses them.
\<close>

record hourly_json =
  time :: "int list option"
  windspeed_10m :: "real list option"

datatype http_response = TransportFailure | JsonBody "hourly_json option"

record sample =
  time_utc :: int
  wind_m_s :: real

text \<open>
  \<open>pd.DataFrame()\<close> and a frame of no rows are both the empty list: \<open>.empty\<close> is
  true of both. \<open>pd.DataFrame\<close> of two columns of different lengths raises
  \<open>ValueError\<close>.
\<close>

definition fetch_wind_data :: "http_response \<Rightarrow> py_error + sample list" where
  "fetch_wind_data r =
     (case r of
        TransportFailure \<Rightarrow> Inl RequestException
      | JsonBody body \<Rightarrow>
          (let hourly = (case body of None \<Rightarrow> \<lparr>time = None, windspeed_10m = None\<rparr>
                                    | Some h \<Rightarrow> h);
               times = (case time hourly of None \<Rightarrow> [] | Some ts \<Rightarrow> ts);
               ws = (case windspeed_10m hourly of None \<Rightarrow> [] | Some w \<Rightarrow> w)
           in if times = [] then Inr []
              else if length times = length ws
              then Inr (map (\<lambda>(t, w). \<lparr>time_utc = t, wind_m_s = w\<rparr>) (zip times ws))
              else Inl ValueError))"

subsection \<open>The run (\<open>if run_fetch:\<close>, lines 124--186)\<close>

datatype source_tag = history | forecast

record tagged = sample +
  source :: source_tag

record enriched = tagged +
  wind_hub_m_s :: real
  power_kW :: real
  energy_kWh :: real

text \<open>\<open>df["source"] = label\<close> (lines 142--143).\<close>

definition set_source :: "source_tag \<Rightarrow> sample list \<Rightarrow> tagged list" where
  "set_source label df =
     map (\<lambda>s. \<lparr>time_utc = time_utc s, wind_m_s = wind_m_s s, source = label\<rparr>) df"

text \<open>
  Line 145: \<open>pd.concat([hist_df, fc_df]).sort_values("time_utc").reset_index()\<close>.
  There is no \<open>drop_duplicates\<close>. \<open>sort_key\<close> keeps rows of equal timestamp in
  their order; pandas' default sort need not, and nothing below depends on that
  order.
\<close>

definition merged_frame :: "sample list \<Rightarrow> sample list \<Rightarrow> tagged list" where
  "merged_frame hist_df fc_df =
     sort_key time_utc (set_source history hist_df @ set_source forecast fc_df)"

text \<open>
  Lines 146--148: the three derived columns. \<open>turbine_power_from_wind\<close> is called
  with \<open>rotor_diameter\<close>, \<open>cp\<close> and \<open>rated_power_kw\<close>; air density, cut-in, cut-out
  and rated wind keep their defaults.
\<close>

definition enrich ::
  "tagged list \<Rightarrow> real \<Rightarrow> real \<Rightarrow> real \<Rightarrow> real \<Rightarrow> real \<Rightarrow> py_error + enriched list" where
  "enrich df hub_height alpha rotor_diameter cp rated_power_kw =
     (case adjust_height_series (map wind_m_s df) 10 hub_height alpha of
        Inl e \<Rightarrow> Inl e
      | Inr hub \<Rightarrow>
          Inr (map (\<lambda>(r, h).
                 let p = turbine_power_from_wind h rotor_diameter cp 1.225 rated_power_kw
                           3.5 25 12
                 in \<lparr>time_utc = time_utc r, wind_m_s = wind_m_s r, source = source r,
                     wind_hub_m_s = h, power_kW = p, energy_kWh = p\<rparr>)
               (zip df hub)))"

text \<open>\<open>Series.mean()\<close>; it is only taken of a frame that has rows.\<close>

definition mean :: "real list \<Rightarrow> real" where
  "mean xs = sum_list xs / real (length xs)"

text \<open>Line 171: the rows from \<open>now_utc\<close> to 48 hours later, both ends included.\<close>

definition hours48 :: int where
  "hours48 = 48 * 3600 * 1000000000"

definition select_next48 :: "enriched list \<Rightarrow> int \<Rightarrow> enriched list" where
  "select_next48 df now_utc =
     filter (\<lambda>r. time_utc r \<ge> now_utc \<and> time_utc r \<le> now_utc + hours48) df"

text \<open>
  What the run hands to the page: the enriched frame (also the CSV's rows), the three
  metric cards and the 48-hour table.
\<close>

record dashboard =
  frame :: "enriched list"
  total_energy_next7 :: real
  avg_cf :: real
  avg_wind_hub :: real
  next48 :: "enriched list"

datatype run_result =
    NoWindData
  | Failed py_error
  | Shown dashboard

text \<open>Lines 139--183, once both fetches have returned.\<close>

definition show_dashboard ::
  "sample list \<Rightarrow> sample list \<Rightarrow> real \<Rightarrow> real \<Rightarrow> real \<Rightarrow> real \<Rightarrow> real \<Rightarrow> int \<Rightarrow> run_result" where
  "show_dashboard hist_df fc_df hub_height alpha rotor_diameter cp rated_power_kw now_utc =
     (if hist_df = [] \<and> fc_df = [] then NoWindData
      else
        (case enrich (merged_frame hist_df fc_df) hub_height alpha rotor_diameter cp
                rated_power_kw of
           Inl e \<Rightarrow> Failed e
         | Inr df \<Rightarrow>
             Shown \<lparr>frame = df,
                    total_energy_next7 =
                      sum_list (map energy_kWh (filter (\<lambda>r. source r = forecast) df)),
                    avg_cf = (if rated_power_kw > 0
                              then mean (map power_kW df) / rated_power_kw else 0),
                    avg_wind_hub = mean (map wind_hub_m_s df),
                    next48 = select_next48 df now_utc\<rparr>))"

text \<open>
  Lines 125--137 and 185: the two fetches in their order, any exception caught and
  reported. \<open>geocode_error\<close> is the exception of the place lookup, if it raised.
\<close>

definition run_fetch ::
  "py_error option \<Rightarrow> http_response \<Rightarrow> http_response \<Rightarrow>
   real \<Rightarrow> real \<Rightarrow> real \<Rightarrow> real \<Rightarrow> real \<Rightarrow> int \<Rightarrow> run_result" where
  "run_fetch geocode_error hist_response fc_response
       hub_height alpha rotor_diameter cp rated_power_kw now_utc =
     (case geocode_error of
        Some e \<Rightarrow> Failed e
      | None \<Rightarrow>
          (case fetch_wind_data hist_response of
             Inl e \<Rightarrow> Failed e
           | Inr hist_df \<Rightarrow>
               (case fetch_wind_data fc_response of
                  Inl e \<Rightarrow> Failed e
                | Inr fc_df \<Rightarrow>
                    show_dashboard hist_df fc_df hub_height alpha rotor_diameter cp
                      rated_power_kw now_utc)))"

subsection \<open>Projections used to state the properties\<close>

text \<open>The three columns an enriched row has carried since the merge.\<close>

definition tagged_of :: "enriched \<Rightarrow> tagged" where
  "tagged_of r = \<lparr>time_utc = time_utc r, wind_m_s = wind_m_s r, source = source r\<rparr>"

text \<open>
  One row of the enriched frame in closed form, for a positive hub height; that
  \<open>enrich\<close> computes exactly these rows is lemma \<open>enrich_rows\<close>.
\<close>

definition enrich_row :: "real \<Rightarrow> real \<Rightarrow> real \<Rightarrow> real \<Rightarrow> real \<Rightarrow> tagged \<Rightarrow> enriched" where
  "enrich_row hub_height alpha rotor_diameter cp rated_power_kw r =
     \<lparr>time_utc = time_utc r, wind_m_s = wind_m_s r, source = source r,
      wind_hub_m_s = wind_m_s r * (hub_height / 10) powr alpha,
      power_kW = turbine_power_from_wind (wind_m_s r * (hub_height / 10) powr alpha)
                   rotor_diameter cp 1.225 rated_power_kw 3.5 25 12,
      energy_kWh = turbine_power_from_wind (wind_m_s r * (hub_height / 10) powr alpha)
                   rotor_diameter cp 1.225 rated_power_kw 3.5 25 12\<rparr>"

section \<open>Properties of the power curve\<close>

lemma raw_power_watt_nonneg:
  "0 \<le> air_density \<Longrightarrow> 0 \<le> cp \<Longrightarrow> 0 \<le> v \<Longrightarrow>
   0 \<le> raw_power_watt v rotor_diameter cp air_density"
  by (simp add: raw_power_watt_def)

lemma turbine_power_unfold:
  "turbine_power_from_wind v rotor_diameter cp air_density rated_power_kw
       cut_in cut_out rated_wind =
     min (if v < cut_in \<or> v > cut_out then 0
          else raw_power_watt v rotor_diameter cp air_density)
         (rated_power_kw * 1000) / 1000"
  by (simp add: turbine_power_from_wind_def raw_power_watt_def Let_def)

text \<open>
  In exact arithmetic the clamp of line 83 keeps the result between 0 and the rated
  power, for a positive rated power and a cut-in that is not negative.
\<close>

lemma turbine_power_bounded_exact:
  assumes "0 < rated_power_kw" and "0 \<le> cut_in" and "cut_in < cut_out"
    and "0 < rotor_diameter" and "0 < air_density" and "0 < cp" and "cp \<le> 1"
  shows "0 \<le> turbine_power_from_wind v rotor_diameter cp air_density rated_power_kw
               cut_in cut_out rated_wind
       \<and> turbine_power_from_wind v rotor_diameter cp air_density rated_power_kw
               cut_in cut_out rated_wind \<le> rated_power_kw"
proof (cases "v < cut_in \<or> v > cut_out")
  case True
  with assms(1) show ?thesis
    by (simp add: turbine_power_unfold)
next
  case False
  with assms(2) have "0 \<le> v" by simp
  with assms have "0 \<le> raw_power_watt v rotor_diameter cp air_density"
    by (simp add: raw_power_watt_nonneg)
  with False assms(1) show ?thesis
    by (simp add: turbine_power_unfold min_def)
qed

text \<open>
  In doubles the function returns exactly 1500 for the rated power 1500 at 12 m/s,
  and the unclamped value at 8 m/s.
\<close>

lemma turbine_power_f64_rated_1500:
  "turbine_power_from_wind_f64 (f64_of_ratio 12 1) (f64_of_ratio 77 1) (f64_of_ratio 4 10)
       (f64_of_ratio 1225 1000) (f64_of_ratio 1500 1) (f64_of_ratio 35 10)
       (f64_of_ratio 25 1) (f64_of_ratio 12 1)
     = F64 6597069766656000 (- 42)"
  by code_simp

lemma turbine_power_f64_unclamped:
  "turbine_power_from_wind_f64 (f64_of_ratio 8 1) (f64_of_ratio 77 1) (f64_of_ratio 4 10)
       (f64_of_ratio 1225 1000) (f64_of_ratio 1500 1) (f64_of_ratio 35 10)
       (f64_of_ratio 25 1) (f64_of_ratio 12 1)
     = F64 5138036564892637 (- 43)"
  by code_simp

text \<open>
  C1. The computed power should never be above the rated power. The function clamps
  the power in watts to \<open>rated_power_kw * 1000.0\<close> and divides by \<open>1000.0\<close>
  afterwards, and in doubles this product and quotient do not always give the rated
  power back. For the rated power 1500.0048 kW (the double
  \<open>6597090877279253 * 2 ^ -42\<close>), rotor diameter 77, Cp 0.4, air density 1.225,
  cut-in 3.5, cut-out 25 and a hub wind speed of 12 m/s, the clamp binds and the
  function returns \<open>6597090877279254 * 2 ^ -42\<close>, the next double above the rated
  power.
\<close>

theorem turbine_power_exceeds_rated_f64:
  "turbine_power_from_wind_f64 (f64_of_ratio 12 1) (f64_of_ratio 77 1) (f64_of_ratio 4 10)
       (f64_of_ratio 1225 1000) (f64_of_ratio 15000048 10000) (f64_of_ratio 35 10)
       (f64_of_ratio 25 1) (f64_of_ratio 12 1)
     = F64 6597090877279254 (- 42)
   \<and> f64_of_ratio 15000048 10000 = F64 6597090877279253 (- 42)
   \<and> valof (f64_of_ratio 15000048 10000)
     < valof (turbine_power_from_wind_f64 (f64_of_ratio 12 1) (f64_of_ratio 77 1)
         (f64_of_ratio 4 10) (f64_of_ratio 1225 1000) (f64_of_ratio 15000048 10000)
         (f64_of_ratio 35 10) (f64_of_ratio 25 1) (f64_of_ratio 12 1))"
proof -
  have res: "turbine_power_from_wind_f64 (f64_of_ratio 12 1) (f64_of_ratio 77 1)
       (f64_of_ratio 4 10) (f64_of_ratio 1225 1000) (f64_of_ratio 15000048 10000)
       (f64_of_ratio 35 10) (f64_of_ratio 25 1) (f64_of_ratio 12 1)
     = F64 6597090877279254 (- 42)"
    by code_simp
  have rated: "f64_of_ratio 15000048 10000 = F64 6597090877279253 (- 42)"
    by code_simp
  have "valof (F64 6597090877279253 (- 42)) < valof (F64 6597090877279254 (- 42))"
    by simp
  with res rated show ?thesis by simp
qed

text \<open>
  C2. Below cut-in or above cut-out the result is exactly 0, whatever the cubic
  formula gives; a negative wind speed is below a cut-in that is not negative. The
  function has no failing branch: it divides only by the constants 2 and 1000. The
  rated power of a turbine configuration is not negative.
\<close>

theorem turbine_power_zero_outside:
  assumes "v < cut_in \<or> v > cut_out \<or> (v < 0 \<and> 0 \<le> cut_in)"
    and "0 \<le> rated_power_kw"
  shows "turbine_power_from_wind v rotor_diameter cp air_density rated_power_kw
               cut_in cut_out rated_wind = 0"
proof -
  from assms(1) have "v < cut_in \<or> v > cut_out" by linarith
  with assms(2) show ?thesis
    by (simp add: turbine_power_unfold)
qed

theorem turbine_power_zero_outside_witness:
  "((-2::real) < 3.5 \<or> (-2::real) > 25 \<or> ((-2::real) < 0 \<and> (0::real) \<le> 3.5))
   \<and> (0::real) \<le> 1500
   \<and> turbine_power_from_wind (-2) 77 0.4 1.225 1500 3.5 25 12 = 0"
proof -
  have h1: "(-2::real) < 3.5 \<or> (-2::real) > 25 \<or> ((-2::real) < 0 \<and> (0::real) \<le> 3.5)"
    by simp
  have h2: "(0::real) \<le> 1500" by simp
  from turbine_power_zero_outside [OF h1 h2] h1 h2 show ?thesis
    by blast
qed

text \<open>
  C3, as the specification states it: on the whole interval from cut-in to the rated
  wind speed the power never decreases. The rated wind speed is not read by the
  function, and a configuration may put it above cut-out; there the power falls
  back to zero. With cut-in 3.5, cut-out 25 and rated wind 30, the power at 10 m/s is
  positive and the power at 26 m/s is zero.
\<close>

theorem turbine_power_monotone_counterexample:
  "(3.5::real) \<le> 10 \<and> (10::real) \<le> 26 \<and> (26::real) \<le> 30
   \<and> \<not> turbine_power_from_wind 10 77 0.4 1.225 1500 3.5 25 30
         \<le> turbine_power_from_wind 26 77 0.4 1.225 1500 3.5 25 30"
proof -
  have "0 < raw_power_watt 10 77 0.4 1.225"
    by (simp add: raw_power_watt_def)
  then have "0 < turbine_power_from_wind 10 77 0.4 1.225 1500 3.5 25 30"
    by (simp add: turbine_power_unfold)
  moreover have "turbine_power_from_wind 26 77 0.4 1.225 1500 3.5 25 30 = 0"
    by (simp add: turbine_power_unfold)
  ultimately show ?thesis by simp
qed

lemma raw_power_watt_mono:
  assumes "0 \<le> air_density" and "0 \<le> cp" and "0 \<le> v1" and "v1 \<le> v2"
  shows "raw_power_watt v1 rotor_diameter cp air_density
       \<le> raw_power_watt v2 rotor_diameter cp air_density"
proof -
  from assms(3,4) have "v1 ^ 3 \<le> v2 ^ 3"
    by (rule power_mono [OF _ _, rotated])
  moreover from assms(1,2)
  have "0 \<le> 0.5 * air_density * (pi * (rotor_diameter / 2) ^ 2) * cp"
    by simp
  ultimately show ?thesis
    unfolding raw_power_watt_def by (rule mult_left_mono)
qed

text \<open>
  C3, amended: when the rated wind speed is not above cut-out (and cut-in, air
  density and power coefficient are not negative), the power never decreases on the
  interval from cut-in to the rated wind speed.
\<close>

theorem turbine_power_monotone:
  assumes "0 \<le> cut_in" and "0 \<le> air_density" and "0 \<le> cp"
    and "rated_wind \<le> cut_out"
    and "cut_in \<le> v1" and "v1 \<le> v2" and "v2 \<le> rated_wind"
  shows "turbine_power_from_wind v1 rotor_diameter cp air_density rated_power_kw
               cut_in cut_out rated_wind
       \<le> turbine_power_from_wind v2 rotor_diameter cp air_density rated_power_kw
               cut_in cut_out rated_wind"
proof -
  from assms have in1: "\<not> (v1 < cut_in \<or> v1 > cut_out)"
    and in2: "\<not> (v2 < cut_in \<or> v2 > cut_out)"
    by simp_all
  from assms have "0 \<le> v1" by simp
  with assms have "raw_power_watt v1 rotor_diameter cp air_density
       \<le> raw_power_watt v2 rotor_diameter cp air_density"
    by (simp add: raw_power_watt_mono)
  with in1 in2 show ?thesis
    by (simp add: turbine_power_unfold min_def)
qed

theorem turbine_power_monotone_witness:
  "(0::real) \<le> 3.5 \<and> (0::real) \<le> 1.225 \<and> (0::real) \<le> 0.4 \<and> (12::real) \<le> 25
   \<and> (3.5::real) \<le> 5 \<and> (5::real) \<le> 9 \<and> (9::real) \<le> 12
   \<and> turbine_power_from_wind 5 77 0.4 1.225 1500 3.5 25 12
     \<le> turbine_power_from_wind 9 77 0.4 1.225 1500 3.5 25 12"
proof -
  have h: "(0::real) \<le> 3.5" "(0::real) \<le> 1.225" "(0::real) \<le> 0.4" "(12::real) \<le> 25"
    "(3.5::real) \<le> 5" "(5::real) \<le> 9" "(9::real) \<le> 12"
    by simp_all
  from turbine_power_monotone [OF h, of 77 1500] h show ?thesis
    by blast
qed

text \<open>A lower bound on \<open>pi\<close>, from \<open>sin (pi / 6) = 1 / 2\<close> and \<open>sin x \<le> x\<close>.\<close>

lemma pi_ge_three: "3 \<le> pi"
proof -
  have "sin (pi / 6) \<le> pi / 6"
    by (rule sin_x_le_x) simp
  then show ?thesis
    by (simp add: sin_30)
qed

text \<open>
  C9. Rotor diameter 77 m, Cp 0.4, air density 1.225, hub wind 12 m/s, rated power
  1500 kW, cut-in 3.5 and cut-out 25: the raw aerodynamic power is above
  1,500,000 W, and the function returns exactly 1500 kW.
\<close>

theorem turbine_power_rated_scenario:
  "(1500000::real) < 0.5 * 1.225 * (pi * 38.5 ^ 2) * 0.4 * 12 ^ 3
   \<and> raw_power_watt 12 77 0.4 1.225 = 0.5 * 1.225 * (pi * 38.5 ^ 2) * 0.4 * 12 ^ 3
   \<and> turbine_power_from_wind 12 77 0.4 1.225 1500 3.5 25 12 = 1500"
proof -
  have raw: "raw_power_watt 12 77 0.4 1.225 = 0.5 * 1.225 * (pi * 38.5 ^ 2) * 0.4 * 12 ^ 3"
    by (simp add: raw_power_watt_def)
  have "0.5 * 1.225 * (pi * 38.5 ^ 2) * 0.4 * 12 ^ 3 = pi * (627525.36::real)"
    by (simp add: power2_eq_square power3_eq_cube)
  moreover have "(1500000::real) < 3 * 627525.36" by simp
  moreover have "3 * (627525.36::real) \<le> pi * 627525.36"
    using pi_ge_three by simp
  ultimately have big: "(1500000::real) < 0.5 * 1.225 * (pi * 38.5 ^ 2) * 0.4 * 12 ^ 3"
    by linarith
  with raw have "(1500000::real) < raw_power_watt 12 77 0.4 1.225" by simp
  then have "turbine_power_from_wind 12 77 0.4 1.225 1500 3.5 25 12 = 1500"
    by (simp add: turbine_power_unfold min_def)
  with big raw show ?thesis by blast
qed



section \<open>Properties of the height extrapolation\<close>

lemma height_factor_pos:
  "0 < z_from \<Longrightarrow> 0 < z_to \<Longrightarrow>
   height_factor z_from z_to alpha = Inr ((z_to / z_from) powr alpha)"
  by (simp add: height_factor_def py_truediv_def py_pow_def)

lemma adjust_height_series_pos:
  "0 < z_from \<Longrightarrow> 0 < z_to \<Longrightarrow>
   adjust_height_series ws z_from z_to alpha
     = Inr (map (\<lambda>v. v * (z_to / z_from) powr alpha) ws)"
  by (simp add: adjust_height_series_def height_factor_pos)

text \<open>
  C4. For a reference wind speed that is not negative, positive heights and a shear
  exponent between 0 and 1, \<open>adjust_height\<close> returns the reference speed times
  \<open>(z_to / z_from)\<close> to the power \<open>alpha\<close>, and that value is not negative.
\<close>

theorem adjust_height_power_law:
  assumes "0 \<le> v_ref" and "0 < z_to" and "0 < z_from" and "0 < alpha" and "alpha < 1"
  shows "adjust_height v_ref z_from z_to alpha = Inr (v_ref * (z_to / z_from) powr alpha)
       \<and> 0 \<le> v_ref * (z_to / z_from) powr alpha"
  using assms by (simp add: adjust_height_def height_factor_pos)

theorem adjust_height_power_law_witness:
  "(0::real) \<le> 8 \<and> (0::real) < 80 \<and> (0::real) < 10 \<and> (0::real) < 0.14
   \<and> (0.14::real) < 1
   \<and> adjust_height 8 10 80 0.14 = Inr (8 * (80 / 10) powr 0.14)
   \<and> (0::real) \<le> 8 * (80 / 10) powr 0.14"
proof -
  have h: "(0::real) \<le> 8" "(0::real) < 80" "(0::real) < 10" "(0::real) < 0.14"
    "(0.14::real) < 1"
    by simp_all
  from adjust_height_power_law [OF h] h show ?thesis
    by blast
qed

section \<open>Properties of the fetch\<close>

lemma fetch_wind_data_transport: "fetch_wind_data TransportFailure = Inl RequestException"
  by (simp add: fetch_wind_data_def)

lemma fetch_wind_data_no_hourly: "fetch_wind_data (JsonBody None) = Inr []"
  by (simp add: fetch_wind_data_def)

lemma fetch_wind_data_no_times:
  "time h = None \<or> time h = Some [] \<Longrightarrow> fetch_wind_data (JsonBody (Some h)) = Inr []"
  by (auto simp add: fetch_wind_data_def)

text \<open>
  C5. A response that carries no data, one of the two arrays being absent included,
  should give an empty series and no error. The absent \<open>time\<close> array does
  (\<open>fetch_wind_data_no_times\<close>). With two timestamps present and the
  \<open>windspeed_10m\<close> array absent, the default \<open>[]\<close> reaches \<open>pd.DataFrame\<close>
  beside a column of two rows, and the function raises \<open>ValueError\<close>.
\<close>

theorem fetch_wind_data_values_absent:
  "fetch_wind_data
     (JsonBody (Some \<lparr>time = Some [0, 3600000000000], windspeed_10m = None\<rparr>))
     = Inl ValueError"
  by (simp add: fetch_wind_data_def)

section \<open>Properties of the run\<close>

lemma time_utc_set_source: "map time_utc (set_source label df) = map time_utc df"
  by (simp add: set_source_def comp_def)

lemma sorted_merged_frame: "sorted (map time_utc (merged_frame hist_df fc_df))"
  by (simp add: merged_frame_def)

lemma mset_merged_frame:
  "mset (merged_frame hist_df fc_df)
     = mset (set_source history hist_df) + mset (set_source forecast fc_df)"
  by (simp add: merged_frame_def)

lemma mset_time_merged_frame:
  "mset (map time_utc (merged_frame hist_df fc_df))
     = mset (map time_utc hist_df @ map time_utc fc_df)"
proof -
  have "mset (map time_utc (merged_frame hist_df fc_df))
      = image_mset time_utc (mset (merged_frame hist_df fc_df))"
    by simp
  also have "\<dots> = image_mset time_utc
      (mset (set_source history hist_df) + mset (set_source forecast fc_df))"
    by (simp only: mset_merged_frame)
  also have "\<dots> = mset (map time_utc (set_source history hist_df))
      + mset (map time_utc (set_source forecast fc_df))"
    by simp
  finally show ?thesis
    by (simp add: time_utc_set_source)
qed

lemma distinct_merged_frame:
  "distinct (map time_utc (merged_frame hist_df fc_df))
     \<longleftrightarrow> distinct (map time_utc hist_df @ map time_utc fc_df)"
  using mset_time_merged_frame by (rule mset_eq_imp_distinct_iff)

lemma tagged_of_enrich_row:
  "tagged_of (enrich_row hub_height alpha rotor_diameter cp rated_power_kw r) = r"
  by (simp add: tagged_of_def enrich_row_def)

lemma zip_map_self: "map f (zip xs (map g xs)) = map (\<lambda>x. f (x, g x)) xs"
  by (induction xs) simp_all

lemma enrich_rows:
  assumes "0 < hub_height"
  shows "enrich df hub_height alpha rotor_diameter cp rated_power_kw
       = Inr (map (enrich_row hub_height alpha rotor_diameter cp rated_power_kw) df)"
proof -
  from assms have "adjust_height_series (map wind_m_s df) 10 hub_height alpha
      = Inr (map (\<lambda>r. wind_m_s r * (hub_height / 10) powr alpha) df)"
    by (simp add: adjust_height_series_pos comp_def)
  then show ?thesis
    by (simp add: enrich_def zip_map_self enrich_row_def Let_def)
qed

lemma show_dashboard_NoWindData:
  "show_dashboard hist_df fc_df hub_height alpha rotor_diameter cp rated_power_kw now_utc
     = NoWindData \<longleftrightarrow> hist_df = [] \<and> fc_df = []"
  by (simp add: show_dashboard_def split: sum.split)

lemma show_dashboard_Shown:
  assumes "0 < hub_height" and "hist_df \<noteq> [] \<or> fc_df \<noteq> []"
  shows "\<exists>d. show_dashboard hist_df fc_df hub_height alpha rotor_diameter cp rated_power_kw
              now_utc = Shown d
           \<and> frame d = map (enrich_row hub_height alpha rotor_diameter cp rated_power_kw)
                         (merged_frame hist_df fc_df)
           \<and> next48 d = select_next48 (frame d) now_utc"
  using assms by (auto simp add: show_dashboard_def enrich_rows)

lemma show_dashboard_rows:
  assumes "0 < hub_height" and "hist_df \<noteq> [] \<or> fc_df \<noteq> []"
  shows "\<exists>d. show_dashboard hist_df fc_df hub_height alpha rotor_diameter cp rated_power_kw
              now_utc = Shown d
           \<and> map tagged_of (frame d) = merged_frame hist_df fc_df"
proof -
  from show_dashboard_Shown [OF assms]
  obtain d where d: "show_dashboard hist_df fc_df hub_height alpha rotor_diameter cp
        rated_power_kw now_utc = Shown d"
    "frame d = map (enrich_row hub_height alpha rotor_diameter cp rated_power_kw)
        (merged_frame hist_df fc_df)"
    by blast
  from d(2) have "map tagged_of (frame d) = merged_frame hist_df fc_df"
    by (simp add: comp_def tagged_of_enrich_row)
  with d(1) show ?thesis by blast
qed

lemma run_fetch_NoWindData:
  "run_fetch None hist_response fc_response hub_height alpha rotor_diameter cp
       rated_power_kw now_utc = NoWindData
     \<longleftrightarrow> fetch_wind_data hist_response = Inr [] \<and> fetch_wind_data fc_response = Inr []"
  by (auto simp add: run_fetch_def show_dashboard_NoWindData split: sum.splits)

text \<open>
  C6, as the specification states it: the merged series is sorted and free of
  duplicate timestamps before the derived columns are computed. Line 145 sorts and
  drops nothing: a history row and a forecast row of the same timestamp are both in
  the merged frame.
\<close>

theorem merged_frame_duplicates_counterexample:
  "map time_utc
     (merged_frame [\<lparr>time_utc = 0, wind_m_s = 1\<rparr>] [\<lparr>time_utc = 0, wind_m_s = 2\<rparr>])
     = [0, 0]
   \<and> \<not> distinct (map time_utc
         (merged_frame [\<lparr>time_utc = 0, wind_m_s = 1\<rparr>] [\<lparr>time_utc = 0, wind_m_s = 2\<rparr>]))"
  by (simp add: merged_frame_def set_source_def)

text \<open>
  C6, amended: the merged series is sorted by timestamp and holds every row of the
  two series, each with its source tag; it is free of duplicate timestamps when the
  timestamps of the two series are all different; and the derived columns are
  attached to the rows of this merged series, in its order.
\<close>

theorem merged_frame_sorted:
  "sorted (map time_utc (merged_frame hist_df fc_df))
   \<and> mset (merged_frame hist_df fc_df)
       = mset (set_source history hist_df) + mset (set_source forecast fc_df)
   \<and> (distinct (map time_utc hist_df @ map time_utc fc_df)
        \<longrightarrow> distinct (map time_utc (merged_frame hist_df fc_df)))
   \<and> (0 < hub_height \<and> (hist_df \<noteq> [] \<or> fc_df \<noteq> [])
        \<longrightarrow> (\<exists>d. show_dashboard hist_df fc_df hub_height alpha rotor_diameter cp
                    rated_power_kw now_utc = Shown d
                \<and> map tagged_of (frame d) = merged_frame hist_df fc_df))"
  using sorted_merged_frame mset_merged_frame distinct_merged_frame show_dashboard_rows
  by blast

theorem merged_frame_sorted_witness:
  "distinct (map time_utc [\<lparr>time_utc = 3600000000000, wind_m_s = 5\<rparr>]
             @ map time_utc [\<lparr>time_utc = 0, wind_m_s = 6\<rparr>])
   \<and> (0::real) < 80
   \<and> [\<lparr>time_utc = 3600000000000, wind_m_s = 5\<rparr>] \<noteq> []
   \<and> sorted (map time_utc (merged_frame [\<lparr>time_utc = 3600000000000, wind_m_s = 5\<rparr>]
                [\<lparr>time_utc = 0, wind_m_s = 6\<rparr>]))
   \<and> distinct (map time_utc (merged_frame [\<lparr>time_utc = 3600000000000, wind_m_s = 5\<rparr>]
                [\<lparr>time_utc = 0, wind_m_s = 6\<rparr>]))
   \<and> (\<exists>d. show_dashboard [\<lparr>time_utc = 3600000000000, wind_m_s = 5\<rparr>]
              [\<lparr>time_utc = 0, wind_m_s = 6\<rparr>] 80 0.14 77 0.4 1500 0 = Shown d
          \<and> map tagged_of (frame d)
              = merged_frame [\<lparr>time_utc = 3600000000000, wind_m_s = 5\<rparr>]
                  [\<lparr>time_utc = 0, wind_m_s = 6\<rparr>])"
proof -
  have h1: "distinct (map time_utc [\<lparr>time_utc = 3600000000000, wind_m_s = 5\<rparr>]
             @ map time_utc [\<lparr>time_utc = 0, wind_m_s = 6\<rparr>])"
    by simp
  have h2: "(0::real) < 80" by simp
  have h3: "[\<lparr>time_utc = 3600000000000, wind_m_s = 5\<rparr>] \<noteq> []" by simp
  from merged_frame_sorted [of "[\<lparr>time_utc = 3600000000000, wind_m_s = 5\<rparr>]"
      "[\<lparr>time_utc = 0, wind_m_s = 6\<rparr>]" 80 "0.14" 77 "0.4" 1500 0] h1 h2 h3
  show ?thesis
    by blast
qed

text \<open>
  C7. The run reports that no wind data was returned, and shows nothing, exactly
  when the history series and the forecast series are both empty. When one of them
  has rows (and the hub height is positive, as the sidebar guarantees), the run
  proceeds: it shows the dashboard whose frame is the merged, sorted series with
  the hub wind speed, power and energy of every row, and whose energy total,
  capacity factor, mean hub wind speed and 48-hour table are computed from that
  frame. The frame holds the rows of both series and no others, and an empty side
  contributes none.
\<close>

theorem show_dashboard_no_data_iff:
  "(show_dashboard hist_df fc_df hub_height alpha rotor_diameter cp rated_power_kw now_utc
      = NoWindData \<longleftrightarrow> hist_df = [] \<and> fc_df = [])
   \<and> (0 < hub_height \<and> (hist_df \<noteq> [] \<or> fc_df \<noteq> [])
        \<longrightarrow> show_dashboard hist_df fc_df hub_height alpha rotor_diameter cp
              rated_power_kw now_utc
            = (let df = map (enrich_row hub_height alpha rotor_diameter cp rated_power_kw)
                          (merged_frame hist_df fc_df)
               in Shown \<lparr>frame = df,
                    total_energy_next7 =
                      sum_list (map energy_kWh (filter (\<lambda>r. source r = forecast) df)),
                    avg_cf = (if rated_power_kw > 0
                              then mean (map power_kW df) / rated_power_kw else 0),
                    avg_wind_hub = mean (map wind_hub_m_s df),
                    next48 = select_next48 df now_utc\<rparr>))
   \<and> mset (map tagged_of (map (enrich_row hub_height alpha rotor_diameter cp rated_power_kw)
              (merged_frame hist_df fc_df)))
       = mset (set_source history hist_df) + mset (set_source forecast fc_df)
   \<and> merged_frame hist_df [] = sort_key time_utc (set_source history hist_df)
   \<and> merged_frame [] fc_df = sort_key time_utc (set_source forecast fc_df)"
proof (intro conjI impI)
  show "show_dashboard hist_df fc_df hub_height alpha rotor_diameter cp rated_power_kw now_utc
      = NoWindData \<longleftrightarrow> hist_df = [] \<and> fc_df = []"
    by (rule show_dashboard_NoWindData)
next
  assume a: "0 < hub_height \<and> (hist_df \<noteq> [] \<or> fc_df \<noteq> [])"
  then have "\<not> (hist_df = [] \<and> fc_df = [])" by blast
  moreover from a have "enrich (merged_frame hist_df fc_df) hub_height alpha rotor_diameter cp
        rated_power_kw
      = Inr (map (enrich_row hub_height alpha rotor_diameter cp rated_power_kw)
              (merged_frame hist_df fc_df))"
    by (simp add: enrich_rows)
  ultimately show "show_dashboard hist_df fc_df hub_height alpha rotor_diameter cp
              rated_power_kw now_utc
            = (let df = map (enrich_row hub_height alpha rotor_diameter cp rated_power_kw)
                          (merged_frame hist_df fc_df)
               in Shown \<lparr>frame = df,
                    total_energy_next7 =
                      sum_list (map energy_kWh (filter (\<lambda>r. source r = forecast) df)),
                    avg_cf = (if rated_power_kw > 0
                              then mean (map power_kW df) / rated_power_kw else 0),
                    avg_wind_hub = mean (map wind_hub_m_s df),
                    next48 = select_next48 df now_utc\<rparr>)"
    by (simp add: show_dashboard_def Let_def)
next
  have "map tagged_of (map (enrich_row hub_height alpha rotor_diameter cp rated_power_kw)
              (merged_frame hist_df fc_df)) = merged_frame hist_df fc_df"
    by (simp add: comp_def tagged_of_enrich_row)
  then show "mset (map tagged_of (map (enrich_row hub_height alpha rotor_diameter cp
        rated_power_kw) (merged_frame hist_df fc_df)))
       = mset (set_source history hist_df) + mset (set_source forecast fc_df)"
    by (simp only: mset_merged_frame)
next
  show "merged_frame hist_df [] = sort_key time_utc (set_source history hist_df)"
    by (simp add: merged_frame_def set_source_def)
next
  show "merged_frame [] fc_df = sort_key time_utc (set_source forecast fc_df)"
    by (simp add: merged_frame_def set_source_def)
qed

theorem show_dashboard_no_data_iff_witness:
  "(0::real) < 80
   \<and> [\<lparr>time_utc = 0, wind_m_s = 5\<rparr>] \<noteq> []
   \<and> show_dashboard [] [] 80 0.14 77 0.4 1500 0 = NoWindData
   \<and> show_dashboard [\<lparr>time_utc = 0, wind_m_s = 5\<rparr>] [] 80 0.14 77 0.4 1500 0 \<noteq> NoWindData
   \<and> show_dashboard [\<lparr>time_utc = 0, wind_m_s = 5\<rparr>] [] 80 0.14 77 0.4 1500 0
       = (let df = map (enrich_row 80 0.14 77 0.4 1500)
                     (merged_frame [\<lparr>time_utc = 0, wind_m_s = 5\<rparr>] [])
          in Shown \<lparr>frame = df,
               total_energy_next7 =
                 sum_list (map energy_kWh (filter (\<lambda>r. source r = forecast) df)),
               avg_cf = (if (1500::real) > 0 then mean (map power_kW df) / 1500 else 0),
               avg_wind_hub = mean (map wind_hub_m_s df),
               next48 = select_next48 df 0\<rparr>)
   \<and> merged_frame [\<lparr>time_utc = 0, wind_m_s = 5\<rparr>] []
       = [\<lparr>time_utc = 0, wind_m_s = 5, source = history\<rparr>]"
proof -
  have h1: "(0::real) < 80" by simp
  have h2: "[\<lparr>time_utc = 0, wind_m_s = 5\<rparr>] \<noteq> []" by simp
  have m: "merged_frame [\<lparr>time_utc = 0, wind_m_s = 5\<rparr>] []
       = [\<lparr>time_utc = 0, wind_m_s = 5, source = history\<rparr>]"
    by (simp add: merged_frame_def set_source_def)
  from show_dashboard_no_data_iff [of "[\<lparr>time_utc = 0, wind_m_s = 5\<rparr>]" "[]"
      80 "0.14" 77 "0.4" 1500 0]
    show_dashboard_no_data_iff [of "[]" "[]" 80 "0.14" 77 "0.4" 1500 0] h1 h2 m
  show ?thesis
    by blast
qed

text \<open>
  C8. Every row selected into the 48-hour table is a row of the frame whose
  timestamp is at or after \<open>now\<close> and at most 48 hours (in nanoseconds) after it.
\<close>

theorem select_next48_within:
  assumes "r \<in> set (select_next48 df now_utc)"
  shows "now_utc \<le> time_utc r \<and> time_utc r \<le> now_utc + 48 * 3600 * 1000000000
       \<and> r \<in> set df"
  using assms by (simp add: select_next48_def hours48_def)

theorem select_next48_within_witness:
  "enrich_row 80 0.14 77 0.4 1500 \<lparr>time_utc = 7200000000000, wind_m_s = 5, source = forecast\<rparr>
     \<in> set (select_next48
         (map (enrich_row 80 0.14 77 0.4 1500)
            [\<lparr>time_utc = - 3600000000000, wind_m_s = 4, source = history\<rparr>,
             \<lparr>time_utc = 7200000000000, wind_m_s = 5, source = forecast\<rparr>,
             \<lparr>time_utc = 176400000000000, wind_m_s = 6, source = forecast\<rparr>]) 0)
   \<and> 0 \<le> time_utc (enrich_row 80 0.14 77 0.4 1500
         \<lparr>time_utc = 7200000000000, wind_m_s = 5, source = forecast\<rparr>)
   \<and> time_utc (enrich_row 80 0.14 77 0.4 1500
         \<lparr>time_utc = 7200000000000, wind_m_s = 5, source = forecast\<rparr>)
       \<le> 0 + 48 * 3600 * 1000000000"
proof -
  have h: "enrich_row 80 0.14 77 0.4 1500
        \<lparr>time_utc = 7200000000000, wind_m_s = 5, source = forecast\<rparr>
     \<in> set (select_next48
         (map (enrich_row 80 0.14 77 0.4 1500)
            [\<lparr>time_utc = - 3600000000000, wind_m_s = 4, source = history\<rparr>,
             \<lparr>time_utc = 7200000000000, wind_m_s = 5, source = forecast\<rparr>,
             \<lparr>time_utc = 176400000000000, wind_m_s = 6, source = forecast\<rparr>]) 0)"
    by (simp add: select_next48_def hours48_def enrich_row_def)
  from select_next48_within [OF h] h show ?thesis
    by blast
qed

end
